theory Spec2Isabelle
  imports Complex_Main
begin

section \<open>SignalLab: index arithmetic and convolution alignment\<close>

text \<open>
  The program is a Streamlit script (\<^verbatim>\<open>app.py\<close>) with a plotting module
  (\<^verbatim>\<open>signallab/plotting.py\<close>). Every figure it shows is built from two sample
  arrays \<open>x\<close>, \<open>h\<close> and two integer start indices.

  \<^item> Start indices are Python integers: \<open>int\<close>. The index arrays are NumPy integer
    arrays built from them (64-bit on a 64-bit build); the number widget bounds its value
    far below \<open>2^63\<close>, so no index computation of the script wraps, and the arrays are
    \<open>int list\<close>.
  \<^item> Samples are NumPy \<open>float64\<close> values. They are modelled as exact \<open>real\<close> numbers:
    rounding, infinities and NaN are outside the model.
  \<^item> Matplotlib is not modelled. A plotting function is the \<open>figure\<close> it is asked to
    draw: the data of its plotting calls. What matplotlib does with a stem plot that has
    no stems is left open, so the properties below speak of figures only where every stem
    plot has at least one stem, or say so.
  \<^item> What a piece of the script does is the list of figures it hands to
    \<^verbatim>\<open>st.pyplot\<close>, in order, together with the exception that its own statements or
    NumPy raised, if any: a pair \<open>(figs, raised)\<close> with \<open>raised :: error option\<close>.
\<close>

subsection \<open>NumPy operations the program calls\<close>

datatype error = ValueError | IndexError

abbreviation len :: "'a list \<Rightarrow> int" where
  "len xs \<equiv> int (length xs)"

text \<open>\<^verbatim>\<open>np.arange(start, stop)\<close> on integers: \<open>start, start + 1, ..., stop - 1\<close>, and
  the empty array when \<open>stop \<le> start\<close>.\<close>

definition arange :: "int \<Rightarrow> int \<Rightarrow> int list" where
  "arange start stop = [start..stop - 1]"

text \<open>\<^verbatim>\<open>a[j]\<close> for an integer \<open>j\<close>: a negative index counts from the end, and an
  index outside \<open>-len(a) .. len(a) - 1\<close> raises \<^verbatim>\<open>IndexError\<close>.\<close>

definition getitem :: "'a list \<Rightarrow> int \<Rightarrow> error + 'a" where
  "getitem a j =
     (if 0 \<le> j \<and> j < len a then Inr (a ! nat j)
      else if - len a \<le> j \<and> j < 0 then Inr (a ! nat (len a + j))
      else Inl IndexError)"

text \<open>\<^verbatim>\<open>multiarray.correlate(a, v, 'full')\<close>, called with \<open>len(v) \<le> len(a)\<close>:
  output sample \<open>j\<close> is the sum over \<open>n\<close> of \<open>a[n + k] * v[n]\<close> for the lag
  \<open>k = j - (len(v) - 1)\<close>, where \<open>a\<close> is taken as zero outside its range; the output
  has \<open>len(a) + len(v) - 1\<close> samples.\<close>

definition correlate_full :: "real list \<Rightarrow> real list \<Rightarrow> real list" where
  "correlate_full a v =
     map (\<lambda>j. \<Sum>n\<leftarrow>[0..<length v].
                (let m = int n + int j - (len v - 1)
                 in if 0 \<le> m \<and> m < len a then a ! nat m * v ! n else 0))
         [0..<length a + length v - 1]"

text \<open>\<^verbatim>\<open>np.convolve(a, v)\<close> (mode \<^verbatim>\<open>'full'\<close>), as NumPy's \<^verbatim>\<open>numeric.py\<close> has it:
  the longer array goes first, an empty array raises \<^verbatim>\<open>ValueError\<close>, and the result
  is the correlation with the reversed second array.\<close>

definition np_convolve :: "real list \<Rightarrow> real list \<Rightarrow> error + real list" where
  "np_convolve a v =
     (let (a, v) = (if length v > length a then (v, a) else (a, v))
      in if length a = 0 then Inl ValueError
         else if length v = 0 then Inl ValueError
         else Inr (correlate_full a (rev v)))"

subsection \<open>plotting.py\<close>

text \<open>A figure is what the plotting functions put on the axes: the stems (time indices
  and sample values), their formats, the x limits, the upper y limit, the ticks, and the
  label, title and grid when the function sets them.\<close>

record figure =
  stem_n :: "int list"
  stem_values :: "real list"
  stem_linefmt :: string
  stem_markerfmt :: string
  ax_xlim :: "int \<times> int"
  ax_ymax :: real
  ax_xticks :: "int list"
  ax_xlabel :: "string option"
  ax_title :: "string option"
  ax_grid :: bool

definition plot_signal ::
  "int list \<Rightarrow> real list \<Rightarrow> string \<Rightarrow> int \<times> int \<Rightarrow> real \<Rightarrow> int list \<Rightarrow> string \<Rightarrow> figure" where
  "plot_signal n_values signal_values title xlim ylim xticks color =
     \<lparr>stem_n = n_values, stem_values = signal_values,
      stem_linefmt = color @ ''-'', stem_markerfmt = color @ ''o'',
      ax_xlim = xlim, ax_ymax = ylim, ax_xticks = xticks,
      ax_xlabel = Some ''n'', ax_title = Some title, ax_grid = False\<rparr>"

definition plot_signal_with_grid ::
  "int list \<Rightarrow> real list \<Rightarrow> int \<times> int \<Rightarrow> real \<Rightarrow> int list \<Rightarrow> string \<Rightarrow> figure" where
  "plot_signal_with_grid n_values signal_values xlim ylim xticks color =
     \<lparr>stem_n = n_values, stem_values = signal_values,
      stem_linefmt = color @ ''-'', stem_markerfmt = color @ ''o'',
      ax_xlim = xlim, ax_ymax = ylim, ax_xticks = xticks,
      ax_xlabel = None, ax_title = None, ax_grid = True\<rparr>"

text \<open>The loop of \<^verbatim>\<open>plot_shifted_impulse_responses\<close> over \<open>n_x\<close>: per index the
  coefficient \<^verbatim>\<open>x[i - start_x]\<close>, the shifted indices \<^verbatim>\<open>n_h0 + i\<close> and the scaled
  samples \<^verbatim>\<open>coeff * h\<close>, plotted on the global axis.\<close>

fun plot_shifted_impulse_responses ::
  "int list \<Rightarrow> real list \<Rightarrow> int \<Rightarrow> real list \<Rightarrow> int list \<Rightarrow> int \<times> int \<Rightarrow> real \<Rightarrow> int list
     \<Rightarrow> figure list \<times> error option" where
  "plot_shifted_impulse_responses [] x start_x h n_h0 global_xlim ymax global_ticks = ([], None)"
| "plot_shifted_impulse_responses (i # n_x) x start_x h n_h0 global_xlim ymax global_ticks =
     (case getitem x (i - start_x) of
        Inl e \<Rightarrow> ([], Some e)
      | Inr coeff \<Rightarrow>
          (let n_hi = map (\<lambda>n. n + i) n_h0;
               fig = plot_signal_with_grid n_hi (map (\<lambda>v. coeff * v) h)
                       global_xlim ymax global_ticks ''C1'';
               (figs, raised) = plot_shifted_impulse_responses n_x x start_x h n_h0
                                  global_xlim ymax global_ticks
           in (fig # figs, raised)))"

definition plot_convolution_result ::
  "real list \<Rightarrow> real list \<Rightarrow> int \<Rightarrow> int \<Rightarrow> int \<times> int \<Rightarrow> real \<Rightarrow> int list
     \<Rightarrow> figure list \<times> error option" where
  "plot_convolution_result x h start_x start_h global_xlim ymax global_ticks =
     (case np_convolve x h of
        Inl e \<Rightarrow> ([], Some e)
      | Inr y \<Rightarrow>
          (let start_y = start_x + start_h;
               n_y = arange start_y (start_y + len y);
               fig = plot_signal n_y y ''y(n) = x(n) * h(n)''
                       global_xlim ymax global_ticks ''C3''
           in ([fig], None)))"

subsection \<open>app.py\<close>

text \<open>The module-level values of the script, as functions of the parsed arrays and the
  two start indices.\<close>

definition app_n_x :: "real list \<Rightarrow> int \<Rightarrow> int list" where
  "app_n_x x start_x = arange start_x (start_x + len x)"


definition app_n_h0 :: "real list \<Rightarrow> int \<Rightarrow> int list" where
  "app_n_h0 h start_h = arange start_h (start_h + len h)"


definition app_start_y :: "int \<Rightarrow> int \<Rightarrow> int" where
  "app_start_y start_x start_h = start_x + start_h"

definition app_end_y :: "real list \<Rightarrow> int \<Rightarrow> real list \<Rightarrow> int \<Rightarrow> int" where
  "app_end_y x start_x h start_h = app_start_y start_x start_h + (len x + len h - 2)"

definition app_global_min :: "int \<Rightarrow> int \<Rightarrow> int" where
  "app_global_min start_x start_h =
     min start_x (min start_h (app_start_y start_x start_h))"

definition app_global_max :: "real list \<Rightarrow> int \<Rightarrow> real list \<Rightarrow> int \<Rightarrow> int" where
  "app_global_max x start_x h start_h =
     max (start_x + len x - 1) (max (start_h + len h - 1) (app_end_y x start_x h start_h))"

definition app_global_ticks :: "real list \<Rightarrow> int \<Rightarrow> real list \<Rightarrow> int \<Rightarrow> int list" where
  "app_global_ticks x start_x h start_h =
     arange (app_global_min start_x start_h) (app_global_max x start_x h start_h + 1)"

definition app_global_xlim :: "real list \<Rightarrow> int \<Rightarrow> real list \<Rightarrow> int \<Rightarrow> int \<times> int" where
  "app_global_xlim x start_x h start_h =
     (app_global_min start_x start_h - 2, app_global_max x start_x h start_h + 2)"

text \<open>The decomposition loop of the left column (\<^verbatim>\<open>for i in n_x\<close>): one single-stem
  figure per time index, holding the index and the coefficient \<^verbatim>\<open>x[i - start_x]\<close>.\<close>

fun decomposition_loop ::
  "int list \<Rightarrow> real list \<Rightarrow> int \<Rightarrow> int \<times> int \<Rightarrow> real \<Rightarrow> int list
     \<Rightarrow> figure list \<times> error option" where
  "decomposition_loop [] x start_x xlim_x YMAX ticks = ([], None)"
| "decomposition_loop (i # n_x) x start_x xlim_x YMAX ticks =
     (case getitem x (i - start_x) of
        Inl e \<Rightarrow> ([], Some e)
      | Inr signal_value \<Rightarrow>
          (let fig = plot_signal_with_grid [i] [signal_value] xlim_x YMAX ticks ''C0'';
               (figs, raised) = decomposition_loop n_x x start_x xlim_x YMAX ticks
           in (fig # figs, raised)))"



subsection \<open>np.fromstring(text, sep=",")\<close>

















subsection \<open>Notions of the specification\<close>

text \<open>The specification's convolution sample: \<open>y[n]\<close> is the sum of \<open>x[k] * h[n - k]\<close>
  over the \<open>k\<close> for which both indices are valid.\<close>

definition conv_sum :: "real list \<Rightarrow> real list \<Rightarrow> nat \<Rightarrow> real" where
  "conv_sum x h n =
     (\<Sum>k\<leftarrow>[0..<length x]. if k \<le> n \<and> n - k < length h then x ! k * h ! (n - k) else 0)"

text \<open>The sample a figure shows at time index \<open>t\<close>: the value of the stem at \<open>t\<close>, and
  zero where the figure has no stem. Zero-padding a figure onto an axis reads it at every
  tick, and the sum of the zero-padded figures adds those sequences tick by tick.\<close>

definition sample_at :: "figure \<Rightarrow> int \<Rightarrow> real" where
  "sample_at fig t =
     (case map_of (zip (stem_n fig) (stem_values fig)) t of None \<Rightarrow> 0 | Some v \<Rightarrow> v)"

definition zero_padded :: "int list \<Rightarrow> figure \<Rightarrow> real list" where
  "zero_padded axis fig = map (sample_at fig) axis"

definition sum_zero_padded :: "int list \<Rightarrow> figure list \<Rightarrow> real list" where
  "sum_zero_padded axis figs =
     foldr (map2 (+)) (map (zero_padded axis) figs) (replicate (length axis) 0)"

section \<open>Properties\<close>

subsection \<open>Index ranges and element access\<close>

lemma arange_length: "length (arange a b) = nat (b - a)"
  by (simp add: arange_def)

lemma arange_eq_map: "arange s (s + int n) = map (\<lambda>k. s + int k) [0..<n]"
proof (induction n)
  case 0
  show ?case by (simp add: arange_def)
next
  case (Suc n)
  have "arange s (s + int (Suc n)) = arange s (s + int n) @ [s + int n]"
    unfolding arange_def using upto_rec2[of s "s + int n"] by (simp add: algebra_simps)
  then show ?case using Suc by simp
qed

lemma arange_shift: "map (\<lambda>n. n + i) (arange s (s + int k)) = arange (s + i) (s + i + int k)"
proof -
  have "arange (s + i) (s + i + int k) = map (\<lambda>j. s + i + int j) [0..<k]"
    by (rule arange_eq_map)
  then show ?thesis
    by (simp add: arange_eq_map o_def add.assoc add.left_commute add.commute)
qed

lemma hd_upto: "a \<le> b \<Longrightarrow> hd [a..b] = a"
  by (subst upto_rec1) simp_all

lemma len_pos: "xs \<noteq> [] \<Longrightarrow> 1 \<le> len xs"
  by (cases xs) simp_all

lemma getitem_in_range: "0 \<le> j \<Longrightarrow> j < len a \<Longrightarrow> getitem a j = Inr (a ! nat j)"
  by (simp add: getitem_def)

lemma app_n_x_in_range:
  "i \<in> set (app_n_x x start_x) \<Longrightarrow> 0 \<le> i - start_x \<and> i - start_x < len x"
  by (auto simp: app_n_x_def arange_def)

subsection \<open>The two loops in closed form\<close>

lemma decomposition_loop_map:
  "(\<And>i. i \<in> set ns \<Longrightarrow> 0 \<le> i - start_x \<and> i - start_x < len x) \<Longrightarrow>
   decomposition_loop ns x start_x xl ym tk =
     (map (\<lambda>i. plot_signal_with_grid [i] [x ! nat (i - start_x)] xl ym tk ''C0'') ns, None)"
  by (induction ns) (simp_all add: getitem_in_range)

lemma shifted_loop_map:
  "(\<And>i. i \<in> set ns \<Longrightarrow> 0 \<le> i - start_x \<and> i - start_x < len x) \<Longrightarrow>
   plot_shifted_impulse_responses ns x start_x h n_h0 xl ym tk =
     (map (\<lambda>i. plot_signal_with_grid (map (\<lambda>n. n + i) n_h0)
                  (map (\<lambda>v. x ! nat (i - start_x) * v) h) xl ym tk ''C1'') ns, None)"
  by (induction ns) (simp_all add: getitem_in_range)

lemma decomposition_loop_eq:
  "decomposition_loop (app_n_x x start_x) x start_x xl ym tk =
     (map (\<lambda>k. plot_signal_with_grid [start_x + int k] [x ! k] xl ym tk ''C0'')
        [0..<length x], None)"
proof -
  have "decomposition_loop (app_n_x x start_x) x start_x xl ym tk =
     (map (\<lambda>i. plot_signal_with_grid [i] [x ! nat (i - start_x)] xl ym tk ''C0'')
        (app_n_x x start_x), None)"
    by (rule decomposition_loop_map) (rule app_n_x_in_range)
  then show ?thesis by (simp add: app_n_x_def arange_eq_map o_def)
qed

lemma shifted_loop_eq:
  "plot_shifted_impulse_responses (app_n_x x start_x) x start_x h n_h0 xl ym tk =
     (map (\<lambda>k. plot_signal_with_grid (map (\<lambda>n. n + (start_x + int k)) n_h0)
                  (map (\<lambda>v. x ! k * v) h) xl ym tk ''C1'')
        [0..<length x], None)"
proof -
  have "plot_shifted_impulse_responses (app_n_x x start_x) x start_x h n_h0 xl ym tk =
     (map (\<lambda>i. plot_signal_with_grid (map (\<lambda>n. n + i) n_h0)
                  (map (\<lambda>v. x ! nat (i - start_x) * v) h) xl ym tk ''C1'')
        (app_n_x x start_x), None)"
    by (rule shifted_loop_map) (rule app_n_x_in_range)
  then show ?thesis by (simp add: app_n_x_def arange_eq_map o_def)
qed

subsection \<open>np.convolve computes the convolution sum\<close>

lemma conv_sum_set:
  "conv_sum x h n =
     (\<Sum>k\<in>{k. k < length x \<and> k \<le> n \<and> n - k < length h}. x ! k * h ! (n - k))"
proof -
  have "conv_sum x h n =
      (\<Sum>k\<in>{..<length x}. if k \<le> n \<and> n - k < length h then x ! k * h ! (n - k) else 0)"
    by (simp add: conv_sum_def interv_sum_list_conv_sum_set_nat atLeast0LessThan)
  also have "\<dots> =
      (\<Sum>k\<in>{..<length x} \<inter> {k. k \<le> n \<and> n - k < length h}. x ! k * h ! (n - k))"
    by (simp add: sum.inter_restrict)
  also have "{..<length x} \<inter> {k. k \<le> n \<and> n - k < length h}
      = {k. k < length x \<and> k \<le> n \<and> n - k < length h}"
    by auto
  finally show ?thesis .
qed

lemma conv_sum_commute: "conv_sum x h n = conv_sum h x n"
  unfolding conv_sum_set
  by (rule sum.reindex_bij_witness[where i = "\<lambda>k. n - k" and j = "\<lambda>k. n - k"])
     (auto simp: mult.commute)

lemma correlate_full_length: "length (correlate_full a v) = length a + length v - 1"
  by (simp add: correlate_full_def)

lemma correlate_full_rev_nth:
  assumes "j < length a + length v - 1"
  shows "correlate_full a (rev v) ! j = conv_sum v a j"
proof -
  let ?lv = "length v"
  have "correlate_full a (rev v) ! j =
      (\<Sum>n\<in>{..<?lv}. (let m = int n + int j - (len v - 1)
                 in if 0 \<le> m \<and> m < len a then a ! nat m * rev v ! n else 0))"
    using assms
    by (simp add: correlate_full_def interv_sum_list_conv_sum_set_nat atLeast0LessThan)
  also have "\<dots> =
      (\<Sum>p\<in>{..<?lv}. if p \<le> j \<and> j - p < length a then v ! p * a ! (j - p) else 0)"
  proof (rule sum.reindex_bij_witness[where i = "\<lambda>p. ?lv - 1 - p" and j = "\<lambda>n. ?lv - 1 - n"])
    fix n assume n: "n \<in> {..<?lv}"
    then show "?lv - 1 - (?lv - 1 - n) = n" by auto
    from n show "?lv - 1 - n \<in> {..<?lv}" by auto
    let ?p = "?lv - 1 - n"
    have eq: "int n + int j - (len v - 1) = int j - int ?p" using n by auto
    have r: "rev v ! n = v ! ?p" using n by (simp add: rev_nth)
    show "(if ?p \<le> j \<and> j - ?p < length a then v ! ?p * a ! (j - ?p) else 0) =
          (let m = int n + int j - (len v - 1)
           in if 0 \<le> m \<and> m < len a then a ! nat m * rev v ! n else 0)"
      unfolding Let_def eq r
      by (auto simp: nat_diff_distrib' mult.commute)
  next
    fix p assume p: "p \<in> {..<?lv}"
    then show "?lv - 1 - (?lv - 1 - p) = p" by auto
    from p show "?lv - 1 - p \<in> {..<?lv}" by auto
  qed
  also have "\<dots> = conv_sum v a j"
    by (simp add: conv_sum_def interv_sum_list_conv_sum_set_nat atLeast0LessThan)
  finally show ?thesis .
qed

lemma np_convolve_conv_sum:
  assumes "x \<noteq> []" "h \<noteq> []"
  shows "np_convolve x h = Inr (map (conv_sum x h) [0..<length x + length h - 1])"
proof (cases "length h > length x")
  case True
  have "correlate_full h (rev x) = map (conv_sum x h) [0..<length x + length h - 1]"
    by (rule nth_equalityI)
       (simp_all add: correlate_full_length correlate_full_rev_nth add.commute)
  with True assms show ?thesis by (simp add: np_convolve_def)
next
  case False
  have "correlate_full x (rev h) = map (conv_sum x h) [0..<length x + length h - 1]"
    by (rule nth_equalityI)
       (simp_all add: correlate_full_length correlate_full_rev_nth conv_sum_commute[of x h])
  with False assms show ?thesis by (simp add: np_convolve_def)
qed

lemma plot_convolution_result_eq:
  assumes "x \<noteq> []" "h \<noteq> []"
  shows "plot_convolution_result x h start_x start_h xl ym tk =
     ([plot_signal (arange (start_x + start_h) (start_x + start_h + (len x + len h - 1)))
         (map (conv_sum x h) [0..<length x + length h - 1])
         ''y(n) = x(n) * h(n)'' xl ym tk ''C3''], None)"
proof -
  have "int (length x + length h - 1) = len x + len h - 1"
    using assms by (cases x) auto
  then show ?thesis
    using assms by (simp add: plot_convolution_result_def np_convolve_conv_sum Let_def)
qed

subsection \<open>Reading figures on an axis\<close>

lemma map_of_arange:
  "map_of (zip (arange a (a + len vs)) vs) t =
     (if a \<le> t \<and> t < a + len vs then Some (vs ! nat (t - a)) else None)"
proof (cases "a \<le> t \<and> t < a + len vs")
  case True
  let ?ks = "arange a (a + len vs)"
  have l: "length ?ks = length vs" by (simp add: arange_length)
  have d: "distinct ?ks" by (simp add: arange_def)
  have i: "nat (t - a) < length vs" using True by auto
  have k: "?ks ! nat (t - a) = t" using True i by (simp add: arange_eq_map)
  from map_of_zip_nth[OF l d i] k True show ?thesis by simp
next
  case False
  have l: "length (arange a (a + len vs)) = length vs" by (simp add: arange_length)
  have "t \<notin> set (arange a (a + len vs))" using False by (auto simp: arange_def)
  with map_of_zip_is_None[OF l, of t] False show ?thesis by simp
qed

lemma sum_zero_padded_eq:
  "sum_zero_padded axis figs = map (\<lambda>t. \<Sum>f\<leftarrow>figs. sample_at f t) axis"
proof (induction figs)
  case Nil
  show ?case by (simp add: sum_zero_padded_def map_replicate_const)
next
  case (Cons f figs)
  have "sum_zero_padded axis (f # figs)
      = map2 (+) (zero_padded axis f) (sum_zero_padded axis figs)"
    by (simp add: sum_zero_padded_def)
  also have "\<dots> = map (\<lambda>t. \<Sum>g\<leftarrow>f # figs. sample_at g t) axis"
    unfolding Cons.IH zero_padded_def by (induction axis) simp_all
  finally show ?case .
qed

lemma sample_at_shifted:
  "sample_at (plot_signal_with_grid (map (\<lambda>n. n + i) (app_n_h0 h start_h))
                (map (\<lambda>v. c * v) h) xl ym tk col) t =
     (if start_h + i \<le> t \<and> t < start_h + i + len h
      then c * h ! nat (t - (start_h + i)) else 0)"
proof -
  have "map_of (zip (arange (start_h + i) (start_h + i + len (map (\<lambda>v. c * v) h)))
                  (map (\<lambda>v. c * v) h)) t
     = (if start_h + i \<le> t \<and> t < start_h + i + len (map (\<lambda>v. c * v) h)
        then Some (map (\<lambda>v. c * v) h ! nat (t - (start_h + i))) else None)"
    by (rule map_of_arange)
  then show ?thesis
    by (auto simp: sample_at_def plot_signal_with_grid_def app_n_h0_def arange_shift)
qed

lemma sample_at_result:
  "sample_at (plot_signal (arange s (s + len y)) y ttl xl ym tk col) t =
     (if s \<le> t \<and> t < s + len y then y ! nat (t - s) else 0)"
  by (simp add: sample_at_def plot_signal_def map_of_arange)

lemma sum_shifted_eq_conv:
  fixes x h :: "real list"
  shows "(\<Sum>k\<leftarrow>[0..<length x].
            (if start_h + (start_x + int k) \<le> t \<and> t < start_h + (start_x + int k) + len h
             then x ! k * h ! nat (t - (start_h + (start_x + int k))) else 0))
       = (if start_x + start_h \<le> t \<and> t < start_x + start_h + (len x + len h - 1)
          then conv_sum x h (nat (t - (start_x + start_h))) else 0)"
proof (cases "start_x + start_h \<le> t")
  case False
  then show ?thesis by (simp add: sum_list_0)
next
  case True
  define n where "n = nat (t - (start_x + start_h))"
  have t: "t = start_x + start_h + int n" using True by (simp add: n_def)
  have terms: "\<And>k.
      (if start_h + (start_x + int k) \<le> t \<and> t < start_h + (start_x + int k) + len h
       then x ! k * h ! nat (t - (start_h + (start_x + int k))) else 0)
    = (if k \<le> n \<and> n - k < length h then x ! k * h ! (n - k) else 0)"
    unfolding t by (auto simp: nat_diff_distrib')
  have lhs: "(\<Sum>k\<leftarrow>[0..<length x].
            (if start_h + (start_x + int k) \<le> t \<and> t < start_h + (start_x + int k) + len h
             then x ! k * h ! nat (t - (start_h + (start_x + int k))) else 0))
      = conv_sum x h n"
    unfolding terms conv_sum_def ..
  show ?thesis
  proof (cases "int n < len x + len h - 1")
    case True
    then show ?thesis unfolding lhs unfolding t n_def[symmetric] by simp
  next
    case False
    have "map (\<lambda>k. if k \<le> n \<and> n - k < length h then x ! k * h ! (n - k) else 0)
            [0..<length x]
        = map (\<lambda>k. 0) [0..<length x]"
      by (rule map_cong) (use False in auto)
    then have "conv_sum x h n = 0"
      unfolding conv_sum_def by (simp only: sum_list_0)
    with False show ?thesis unfolding lhs unfolding t by simp
  qed
qed

section \<open>The claims\<close>

text \<open>
  Claim C1 (consistency law). For non-empty \<open>x\<close> and \<open>h\<close> and any integer start
  indices, the loop of shifted responses and the convolution plot both run without an
  exception on the global axis, there is one shifted response per sample of \<open>x\<close>, and
  the shifted responses, zero-padded onto the global ticks and added up, are the
  zero-padded convolution result. The equality of the sums holds at every integer time
  index, not only at the ticks.
\<close>

theorem shifted_responses_sum_to_convolution:
  assumes "x \<noteq> []" and "h \<noteq> []"
  shows "\<exists>figs fig_y.
           plot_shifted_impulse_responses (app_n_x x start_x) x start_x h (app_n_h0 h start_h)
             (app_global_xlim x start_x h start_h) ym (app_global_ticks x start_x h start_h)
             = (figs, None)
         \<and> plot_convolution_result x h start_x start_h
             (app_global_xlim x start_x h start_h) ym (app_global_ticks x start_x h start_h)
             = ([fig_y], None)
         \<and> length figs = length x
         \<and> sum_zero_padded (app_global_ticks x start_x h start_h) figs
             = zero_padded (app_global_ticks x start_x h start_h) fig_y
         \<and> (\<forall>t. (\<Sum>f\<leftarrow>figs. sample_at f t) = sample_at fig_y t)"
proof -
  let ?xl = "app_global_xlim x start_x h start_h"
  let ?tk = "app_global_ticks x start_x h start_h"
  let ?figs = "map (\<lambda>k. plot_signal_with_grid
                       (map (\<lambda>n. n + (start_x + int k)) (app_n_h0 h start_h))
                       (map (\<lambda>v. x ! k * v) h) ?xl ym ?tk ''C1'') [0..<length x]"
  let ?y = "map (conv_sum x h) [0..<length x + length h - 1]"
  let ?fig_y = "plot_signal (arange (start_x + start_h) (start_x + start_h + (len x + len h - 1)))
                  ?y ''y(n) = x(n) * h(n)'' ?xl ym ?tk ''C3''"
  have ly: "len ?y = len x + len h - 1"
    using len_pos[OF assms(1)] by simp
  have point: "(\<Sum>f\<leftarrow>?figs. sample_at f t) = sample_at ?fig_y t" for t
  proof -
    have "(\<Sum>f\<leftarrow>?figs. sample_at f t) =
        (\<Sum>k\<leftarrow>[0..<length x].
            (if start_h + (start_x + int k) \<le> t \<and> t < start_h + (start_x + int k) + len h
             then x ! k * h ! nat (t - (start_h + (start_x + int k))) else 0))"
      by (simp add: o_def sample_at_shifted)
    also have "\<dots> =
        (if start_x + start_h \<le> t \<and> t < start_x + start_h + (len x + len h - 1)
         then conv_sum x h (nat (t - (start_x + start_h))) else 0)"
      by (rule sum_shifted_eq_conv)
    also have "\<dots> = sample_at ?fig_y t"
      using sample_at_result[of "start_x + start_h" ?y _ ?xl ym ?tk _ t]
      unfolding ly by auto
    finally show ?thesis .
  qed
  have "sum_zero_padded ?tk ?figs = zero_padded ?tk ?fig_y"
    unfolding sum_zero_padded_eq zero_padded_def using point by simp
  moreover have "plot_shifted_impulse_responses (app_n_x x start_x) x start_x h
      (app_n_h0 h start_h) ?xl ym ?tk = (?figs, None)"
    by (rule shifted_loop_eq)
  moreover have "plot_convolution_result x h start_x start_h ?xl ym ?tk = ([?fig_y], None)"
    using assms by (rule plot_convolution_result_eq)
  moreover have "length ?figs = length x" by simp
  ultimately show ?thesis using point by blast
qed

theorem shifted_responses_sum_to_convolution_witness:
  "[1, 2, 1] \<noteq> ([] :: real list) \<and> [1, 1] \<noteq> ([] :: real list)
   \<and> app_global_ticks [1, 2, 1] (-1) [1, 1] 3 = [-1, 0, 1, 2, 3, 4, 5]
   \<and> (\<exists>figs fig_y.
         plot_shifted_impulse_responses (app_n_x [1, 2, 1] (-1)) [1, 2, 1] (-1) [1, 1]
             (app_n_h0 [1, 1] 3) (app_global_xlim [1, 2, 1] (-1) [1, 1] 3) 10
             (app_global_ticks [1, 2, 1] (-1) [1, 1] 3) = (figs, None)
       \<and> plot_convolution_result [1, 2, 1] [1, 1] (-1) 3
             (app_global_xlim [1, 2, 1] (-1) [1, 1] 3) 10
             (app_global_ticks [1, 2, 1] (-1) [1, 1] 3) = ([fig_y], None)
       \<and> length figs = 3
       \<and> zero_padded (app_global_ticks [1, 2, 1] (-1) [1, 1] 3) fig_y = [0, 0, 0, 1, 3, 3, 1]
       \<and> sum_zero_padded (app_global_ticks [1, 2, 1] (-1) [1, 1] 3) figs
           = [0, 0, 0, 1, 3, 3, 1])"
proof -
  let ?tk = "app_global_ticks [1, 2, 1] (-1) [1, 1] 3"
  let ?xl = "app_global_xlim [1, 2, 1] (-1) [1, 1] 3"
  obtain figs fig_y where
    a: "plot_shifted_impulse_responses (app_n_x [1, 2, 1] (-1)) [1, 2, 1] (-1) [1, 1]
             (app_n_h0 [1, 1] 3) ?xl 10 ?tk = (figs, None)"
    and b: "plot_convolution_result [1, 2, 1] [1, 1] (-1) 3 ?xl 10 ?tk = ([fig_y], None)"
    and c: "length figs = length [1, 2, 1 :: real]"
    and d: "sum_zero_padded ?tk figs = zero_padded ?tk fig_y"
    using shifted_responses_sum_to_convolution[of "[1, 2, 1]" "[1, 1]" "-1" 3 10] by auto
  have tk: "?tk = [-1, 0, 1, 2, 3, 4, 5]"
    by (simp add: app_global_ticks_def app_global_min_def app_global_max_def app_start_y_def
        app_end_y_def arange_def upto_rec1)
  have "plot_convolution_result [1, 2, 1] [1, 1] (-1) 3 ?xl 10 ?tk
       = ([plot_signal [2, 3, 4, 5] [1, 3, 3, 1] ''y(n) = x(n) * h(n)'' ?xl 10 ?tk ''C3''], None)"
    by (simp add: plot_convolution_result_def np_convolve_def correlate_full_def arange_def
        upto_rec1 nth_Cons')
  with b have "fig_y = plot_signal [2, 3, 4, 5] [1, 3, 3, 1] ''y(n) = x(n) * h(n)'' ?xl 10 ?tk ''C3''"
    by simp
  then have e: "zero_padded ?tk fig_y = [0, 0, 0, 1, 3, 3, 1]"
    unfolding tk by (simp add: zero_padded_def sample_at_def plot_signal_def)
  from a b c d e tk show ?thesis by simp
qed

text \<open>
  Claim C2 (\<open>convolve\<close>). For non-empty \<open>x\<close> and \<open>h\<close>, the convolution plot holds
  \<open>len(x) + len(h) - 1\<close> samples, sample \<open>n\<close> is the convolution sum
  \<open>\<Sum>k. x[k] * h[n - k]\<close> over the valid indices, and the time indices run from
  \<open>start_x + start_h\<close> to \<open>start_x + start_h + len(x) + len(h) - 2\<close>, one per sample.
\<close>

theorem convolve_full_linear:
  assumes "x \<noteq> []" and "h \<noteq> []"
  shows "\<exists>fig. plot_convolution_result x h start_x start_h xl ym tk = ([fig], None)
           \<and> length (stem_values fig) = length x + length h - 1
           \<and> (\<forall>n < length x + length h - 1. stem_values fig ! n = conv_sum x h n)
           \<and> stem_n fig = [start_x + start_h .. start_x + start_h + len x + len h - 2]
           \<and> hd (stem_n fig) = start_x + start_h
           \<and> length (stem_n fig) = length (stem_values fig)"
proof -
  let ?n = "length x + length h - 1"
  let ?fig = "plot_signal (arange (start_x + start_h) (start_x + start_h + (len x + len h - 1)))
            (map (conv_sum x h) [0..<?n]) ''y(n) = x(n) * h(n)'' xl ym tk ''C3''"
  have pos: "1 \<le> len x" "1 \<le> len h" using assms by (blast intro: len_pos)+
  have r: "plot_convolution_result x h start_x start_h xl ym tk = ([?fig], None)"
    using assms by (rule plot_convolution_result_eq)
  have v: "stem_values ?fig = map (conv_sum x h) [0..<?n]"
    by (simp add: plot_signal_def)
  have n: "stem_n ?fig = [start_x + start_h .. start_x + start_h + len x + len h - 2]"
    by (simp add: plot_signal_def arange_def algebra_simps)
  have "start_x + start_h \<le> start_x + start_h + len x + len h - 2"
    using pos by linarith
  then have h: "hd (stem_n ?fig) = start_x + start_h"
    unfolding n by (rule hd_upto)
  have l: "length (stem_n ?fig) = length (stem_values ?fig)"
    unfolding n v using pos by simp
  from r v n h l show ?thesis by simp
qed

theorem convolve_full_linear_witness:
  "[1, 2, 1] \<noteq> ([] :: real list) \<and> [1, 1] \<noteq> ([] :: real list)
   \<and> (\<exists>fig. plot_convolution_result [1, 2, 1] [1, 1] 0 0 (-2, 5) 10 [0, 1, 2, 3] = ([fig], None)
         \<and> length (stem_values fig) = 4
         \<and> stem_values fig ! 0 = 1 \<and> stem_values fig ! 1 = 3
         \<and> stem_values fig ! 2 = 3 \<and> stem_values fig ! 3 = 1
         \<and> stem_n fig = [0, 1, 2, 3])"
proof -
  obtain fig where
    f: "plot_convolution_result [1, 2, 1] [1, 1] 0 0 (-2, 5) 10 [0, 1, 2, 3] = ([fig], None)"
    and l: "length (stem_values fig) = length [1, 2, 1 :: real] + length [1, 1 :: real] - 1"
    and v: "\<forall>n < length [1, 2, 1 :: real] + length [1, 1 :: real] - 1.
              stem_values fig ! n = conv_sum [1, 2, 1] [1, 1] n"
    and n: "stem_n fig = [0 + 0 .. 0 + 0 + len [1, 2, 1 :: real] + len [1, 1 :: real] - 2]"
    using convolve_full_linear[of "[1, 2, 1]" "[1, 1]" 0 0 "(-2, 5)" 10 "[0, 1, 2, 3]"] by auto
  have c: "conv_sum [1, 2, 1] [1, 1] 0 = 1" "conv_sum [1, 2, 1] [1, 1] 1 = 3"
    "conv_sum [1, 2, 1] [1, 1] 2 = 3" "conv_sum [1, 2, 1] [1, 1] 3 = 1"
    by (simp_all add: conv_sum_def upt_rec nth_Cons')
  from v have "stem_values fig ! 0 = 1 \<and> stem_values fig ! 1 = 3
         \<and> stem_values fig ! 2 = 3 \<and> stem_values fig ! 3 = 1"
    using c by simp
  moreover from n have "stem_n fig = [0, 1, 2, 3]"
    by (simp add: upto_rec1)
  moreover from l have "length (stem_values fig) = 4" by simp
  ultimately show ?thesis using f by simp
qed

text \<open>
  Claim C4 (\<open>shiftAndScale\<close>). For non-empty \<open>h\<close>, the loop of shifted responses
  shows, for the \<open>k\<close>-th impulse component (index \<open>i = start_x + k\<close>, value
  \<open>c = x[k]\<close>), the copy of \<open>h\<close> whose time indices start at \<open>start_h + i\<close> and
  whose samples are \<open>c * h[j]\<close>. For \<open>x = [1]\<close> at start 2 and \<open>h = [1, 2, 1]\<close> at
  start 0, the single response and the convolution result are both \<open>[1, 2, 1]\<close> on the
  indices 2, 3, 4.
\<close>

theorem shift_and_scale:
  assumes "h \<noteq> []"
  shows "plot_shifted_impulse_responses (app_n_x x start_x) x start_x h (app_n_h0 h start_h)
           xl ym tk =
         (map (\<lambda>k. plot_signal_with_grid
                      [start_h + (start_x + int k) .. start_h + (start_x + int k) + len h - 1]
                      (map (\<lambda>v. x ! k * v) h) xl ym tk ''C1'')
            [0..<length x], None)
       \<and> (\<forall>k. hd [start_h + (start_x + int k) .. start_h + (start_x + int k) + len h - 1]
               = start_h + (start_x + int k))
       \<and> plot_shifted_impulse_responses (app_n_x [1] 2) [1] 2 [1, 2, 1] (app_n_h0 [1, 2, 1] 0)
           xl ym tk =
         ([plot_signal_with_grid [2, 3, 4] [1, 2, 1] xl ym tk ''C1''], None)
       \<and> plot_convolution_result [1] [1, 2, 1] 2 0 xl ym tk =
         ([plot_signal [2, 3, 4] [1, 2, 1] ''y(n) = x(n) * h(n)'' xl ym tk ''C3''], None)"
proof -
  have s: "map (\<lambda>n. n + i) (app_n_h0 h start_h) = [start_h + i .. start_h + i + len h - 1]" for i
    by (simp add: app_n_h0_def arange_shift) (simp add: arange_def)
  have "plot_shifted_impulse_responses (app_n_x x start_x) x start_x h (app_n_h0 h start_h) xl ym tk =
     (map (\<lambda>k. plot_signal_with_grid
                  [start_h + (start_x + int k) .. start_h + (start_x + int k) + len h - 1]
                  (map (\<lambda>v. x ! k * v) h) xl ym tk ''C1'')
        [0..<length x], None)"
    unfolding shifted_loop_eq s ..
  moreover have "hd [start_h + (start_x + int k) .. start_h + (start_x + int k) + len h - 1]
      = start_h + (start_x + int k)" for k
  proof (rule hd_upto)
    from len_pos[OF assms]
    show "start_h + (start_x + int k) \<le> start_h + (start_x + int k) + len h - 1"
      by linarith
  qed
  moreover have "plot_shifted_impulse_responses (app_n_x [1] 2) [1] 2 [1, 2, 1]
       (app_n_h0 [1, 2, 1] 0) xl ym tk
     = ([plot_signal_with_grid [2, 3, 4] [1, 2, 1] xl ym tk ''C1''], None)"
    by (simp add: app_n_x_def app_n_h0_def arange_def upto_rec1 getitem_def)
  moreover have "plot_convolution_result [1] [1, 2, 1] 2 0 xl ym tk =
       ([plot_signal [2, 3, 4] [1, 2, 1] ''y(n) = x(n) * h(n)'' xl ym tk ''C3''], None)"
    by (simp add: plot_convolution_result_def np_convolve_def correlate_full_def arange_def
        upto_rec1 nth_Cons')
  ultimately show ?thesis by simp
qed

theorem shift_and_scale_witness:
  "[1, 1] \<noteq> ([] :: real list)
   \<and> plot_shifted_impulse_responses (app_n_x [3, 5] (-3)) [3, 5] (-3) [1, 1] (app_n_h0 [1, 1] 1)
        (-5, 2) 10 [-3, -2, -1, 0]
     = ([plot_signal_with_grid [-2, -1] [3, 3] (-5, 2) 10 [-3, -2, -1, 0] ''C1'',
         plot_signal_with_grid [-1, 0] [5, 5] (-5, 2) 10 [-3, -2, -1, 0] ''C1''], None)"
proof -
  have ne: "[1, 1] \<noteq> ([] :: real list)" by simp
  have u: "[-2 .. -1 :: int] = [-2, -1]" "[-1 .. 0 :: int] = [-1, 0]"
    by (simp_all add: upto_rec1)
  from shift_and_scale[OF ne, of "[3, 5]" "-3" 1 "(-5, 2)" 10 "[-3, -2, -1, 0]"]
  have "plot_shifted_impulse_responses (app_n_x [3, 5] (-3)) [3, 5] (-3) [1, 1] (app_n_h0 [1, 1] 1)
        (-5, 2) 10 [-3, -2, -1, 0]
     = (map (\<lambda>k. plot_signal_with_grid
                  [1 + (-3 + int k) .. 1 + (-3 + int k) + len [1, 1 :: real] - 1]
                  (map (\<lambda>v. [3, 5] ! k * v) [1, 1]) (-5, 2) 10 [-3, -2, -1, 0] ''C1'')
        [0..<length [3, 5 :: real]], None)"
    by blast
  then show ?thesis by (simp add: upt_rec u)
qed

text \<open>
  Claim C5 (global axis). For non-empty \<open>x\<close> and \<open>h\<close>: \<open>start_y = start_x + start_h\<close>
  and \<open>end_y = start_y + len(x) + len(h) - 2\<close>; the global minimum is the least of the
  three start indices and the global maximum the greatest of the three end indices; the
  ticks are the integers from the minimum to the maximum, the x limits are two below
  and two above them; and the indices of \<open>x\<close>, of \<open>h\<close> and of the convolution plot (which
  are exactly \<open>start_y .. end_y\<close>) all lie among the ticks.
\<close>

theorem global_axis_covers:
  assumes "x \<noteq> []" and "h \<noteq> []"
  shows "app_start_y start_x start_h = start_x + start_h
       \<and> app_end_y x start_x h start_h = app_start_y start_x start_h + len x + len h - 2
       \<and> app_global_min start_x start_h = Min {start_x, start_h, app_start_y start_x start_h}
       \<and> app_global_max x start_x h start_h
            = Max {start_x + len x - 1, start_h + len h - 1, app_end_y x start_x h start_h}
       \<and> app_global_ticks x start_x h start_h
            = [app_global_min start_x start_h .. app_global_max x start_x h start_h]
       \<and> app_global_xlim x start_x h start_h
            = (app_global_min start_x start_h - 2, app_global_max x start_x h start_h + 2)
       \<and> set (app_n_x x start_x) = {start_x .. start_x + len x - 1}
       \<and> set (app_n_h0 h start_h) = {start_h .. start_h + len h - 1}
       \<and> (\<exists>fig. plot_convolution_result x h start_x start_h
                    (app_global_xlim x start_x h start_h) ym
                    (app_global_ticks x start_x h start_h) = ([fig], None)
               \<and> set (stem_n fig) = {app_start_y start_x start_h .. app_end_y x start_x h start_h}
               \<and> set (stem_n fig) \<subseteq> set (app_global_ticks x start_x h start_h))
       \<and> set (app_n_x x start_x) \<subseteq> set (app_global_ticks x start_x h start_h)
       \<and> set (app_n_h0 h start_h) \<subseteq> set (app_global_ticks x start_x h start_h)"
proof -
  have tk: "set (app_global_ticks x start_x h start_h)
      = {app_global_min start_x start_h .. app_global_max x start_x h start_h}"
    by (simp add: app_global_ticks_def arange_def)
  have nx: "set (app_n_x x start_x) = {start_x .. start_x + len x - 1}"
    by (simp add: app_n_x_def arange_def)
  have nh: "set (app_n_h0 h start_h) = {start_h .. start_h + len h - 1}"
    by (simp add: app_n_h0_def arange_def)
  have ny: "set (arange (start_x + start_h) (start_x + start_h + (len x + len h - 1)))
      = {app_start_y start_x start_h .. app_end_y x start_x h start_h}"
    by (auto simp: arange_def app_start_y_def app_end_y_def)
  have r: "plot_convolution_result x h start_x start_h
                    (app_global_xlim x start_x h start_h) ym
                    (app_global_ticks x start_x h start_h)
       = ([plot_signal (arange (start_x + start_h) (start_x + start_h + (len x + len h - 1)))
            (map (conv_sum x h) [0..<length x + length h - 1])
            ''y(n) = x(n) * h(n)'' (app_global_xlim x start_x h start_h) ym
            (app_global_ticks x start_x h start_h) ''C3''], None)"
    using assms by (rule plot_convolution_result_eq)
  have c1: "{start_x .. start_x + len x - 1}
      \<subseteq> {app_global_min start_x start_h .. app_global_max x start_x h start_h}"
    by (auto simp: app_global_min_def app_global_max_def)
  have c2: "{start_h .. start_h + len h - 1}
      \<subseteq> {app_global_min start_x start_h .. app_global_max x start_x h start_h}"
    by (auto simp: app_global_min_def app_global_max_def)
  have c3: "{app_start_y start_x start_h .. app_end_y x start_x h start_h}
      \<subseteq> {app_global_min start_x start_h .. app_global_max x start_x h start_h}"
    by (auto simp: app_global_min_def app_global_max_def)
  have e: "\<exists>fig. plot_convolution_result x h start_x start_h
                    (app_global_xlim x start_x h start_h) ym
                    (app_global_ticks x start_x h start_h) = ([fig], None)
               \<and> set (stem_n fig) = {app_start_y start_x start_h .. app_end_y x start_x h start_h}
               \<and> set (stem_n fig) \<subseteq> set (app_global_ticks x start_x h start_h)"
    unfolding r tk using ny c3 by (simp add: plot_signal_def)
  have m: "app_global_min start_x start_h = Min {start_x, start_h, app_start_y start_x start_h}"
    by (simp add: app_global_min_def)
  have M: "app_global_max x start_x h start_h
            = Max {start_x + len x - 1, start_h + len h - 1, app_end_y x start_x h start_h}"
    by (simp add: app_global_max_def)
  have t: "app_global_ticks x start_x h start_h
            = [app_global_min start_x start_h .. app_global_max x start_x h start_h]"
    by (simp add: app_global_ticks_def arange_def)
  have l: "app_global_xlim x start_x h start_h
            = (app_global_min start_x start_h - 2, app_global_max x start_x h start_h + 2)"
    by (simp add: app_global_xlim_def)
  have s: "app_start_y start_x start_h = start_x + start_h"
    by (simp add: app_start_y_def)
  have en: "app_end_y x start_x h start_h = app_start_y start_x start_h + len x + len h - 2"
    by (simp add: app_end_y_def)
  from s en m M t l nx nh e c1 c2 show ?thesis
    unfolding tk nx nh by blast
qed

theorem global_axis_covers_witness:
  "[1, 2, 1] \<noteq> ([] :: real list) \<and> [1, 1] \<noteq> ([] :: real list)
   \<and> app_global_min (-4) 3 = -4 \<and> app_global_max [1, 2, 1] (-4) [1, 1] 3 = 4
   \<and> app_global_ticks [1, 2, 1] (-4) [1, 1] 3 = [-4, -3, -2, -1, 0, 1, 2, 3, 4]
   \<and> app_global_xlim [1, 2, 1] (-4) [1, 1] 3 = (-6, 6)
   \<and> set (app_n_x [1, 2, 1] (-4)) \<subseteq> set (app_global_ticks [1, 2, 1] (-4) [1, 1] 3)
   \<and> set (app_n_h0 [1, 1] 3) \<subseteq> set (app_global_ticks [1, 2, 1] (-4) [1, 1] 3)
   \<and> (\<exists>fig. plot_convolution_result [1, 2, 1] [1, 1] (-4) 3
                (app_global_xlim [1, 2, 1] (-4) [1, 1] 3) 10
                (app_global_ticks [1, 2, 1] (-4) [1, 1] 3) = ([fig], None)
           \<and> set (stem_n fig) = {-1 .. 2})"
proof -
  have ne: "[1, 2, 1] \<noteq> ([] :: real list)" "[1, 1] \<noteq> ([] :: real list)" by simp_all
  note g = global_axis_covers[OF ne, of "-4" 3 10]
  have v: "app_start_y (-4) 3 = -1" "app_end_y [1, 2, 1] (-4) [1, 1] 3 = 2"
    "app_global_min (-4) 3 = -4" "app_global_max [1, 2, 1] (-4) [1, 1] 3 = 4"
    by (simp_all add: app_start_y_def app_end_y_def app_global_min_def app_global_max_def)
  have t: "[-4 .. 4 :: int] = [-4, -3, -2, -1, 0, 1, 2, 3, 4]"
    by (simp add: upto_rec1)
  from g have "app_global_ticks [1, 2, 1] (-4) [1, 1] 3
      = [app_global_min (-4) 3 .. app_global_max [1, 2, 1] (-4) [1, 1] 3]"
    by blast
  then have a: "app_global_ticks [1, 2, 1] (-4) [1, 1] 3 = [-4, -3, -2, -1, 0, 1, 2, 3, 4]"
    unfolding v t .
  from g have "app_global_xlim [1, 2, 1] (-4) [1, 1] 3
      = (app_global_min (-4) 3 - 2, app_global_max [1, 2, 1] (-4) [1, 1] 3 + 2)"
    by blast
  then have b: "app_global_xlim [1, 2, 1] (-4) [1, 1] 3 = (-6, 6)"
    unfolding v by simp
  from g have c: "set (app_n_x [1, 2, 1] (-4)) \<subseteq> set (app_global_ticks [1, 2, 1] (-4) [1, 1] 3)"
    and d: "set (app_n_h0 [1, 1] 3) \<subseteq> set (app_global_ticks [1, 2, 1] (-4) [1, 1] 3)"
    by blast+
  from g obtain fig where
    "plot_convolution_result [1, 2, 1] [1, 1] (-4) 3
                (app_global_xlim [1, 2, 1] (-4) [1, 1] 3) 10
                (app_global_ticks [1, 2, 1] (-4) [1, 1] 3) = ([fig], None)"
    "set (stem_n fig) = {app_start_y (-4) 3 .. app_end_y [1, 2, 1] (-4) [1, 1] 3}"
    by blast
  then have e: "\<exists>fig. plot_convolution_result [1, 2, 1] [1, 1] (-4) 3
                (app_global_xlim [1, 2, 1] (-4) [1, 1] 3) 10
                (app_global_ticks [1, 2, 1] (-4) [1, 1] 3) = ([fig], None)
           \<and> set (stem_n fig) = {-1 .. 2}"
    unfolding v by blast
  from ne v a b c d e show ?thesis by blast
qed

text \<open>
  Claim C6 (\<open>decompose\<close>). The decomposition loop shows exactly \<open>len(x)\<close> single-stem
  figures and raises nothing; the \<open>k\<close>-th figure holds the index \<open>start_x + k\<close> and the
  value \<open>x[k]\<close>; read in order, the indices are \<open>start_x, ..., start_x + len(x) - 1\<close>,
  strictly increasing, and the values are \<open>x\<close>.
\<close>

theorem decompose_components:
  "decomposition_loop (app_n_x x start_x) x start_x xl ym tk =
     (map (\<lambda>k. plot_signal_with_grid [start_x + int k] [x ! k] xl ym tk ''C0'')
        [0..<length x], None)
   \<and> (\<exists>figs. decomposition_loop (app_n_x x start_x) x start_x xl ym tk = (figs, None)
         \<and> length figs = length x
         \<and> concat (map stem_n figs) = [start_x .. start_x + len x - 1]
         \<and> concat (map stem_values figs) = x
         \<and> sorted_wrt (<) (concat (map stem_n figs)))"
proof -
  let ?figs = "map (\<lambda>k. plot_signal_with_grid [start_x + int k] [x ! k] xl ym tk ''C0'')
            [0..<length x]"
  have n: "concat (map stem_n ?figs) = map (\<lambda>k. start_x + int k) [0..<length x]"
    by (simp add: o_def plot_signal_with_grid_def concat_map_singleton)
  have n': "concat (map stem_n ?figs) = [start_x .. start_x + len x - 1]"
    unfolding n using arange_eq_map[of start_x "length x"] by (simp add: arange_def)
  have v: "concat (map stem_values ?figs) = x"
    by (simp add: o_def plot_signal_with_grid_def concat_map_singleton map_nth)
  have s: "sorted_wrt (<) (concat (map stem_n ?figs))"
    unfolding n' by (rule sorted_wrt_upto)
  show ?thesis
    unfolding decomposition_loop_eq using n' v s by simp
qed

theorem decompose_components_witness:
  "decomposition_loop (app_n_x [5, 6, 7] (-1)) [5, 6, 7] (-1) (-3, 4) 10 [-1, 0, 1] =
     ([plot_signal_with_grid [-1] [5] (-3, 4) 10 [-1, 0, 1] ''C0'',
       plot_signal_with_grid [0] [6] (-3, 4) 10 [-1, 0, 1] ''C0'',
       plot_signal_with_grid [1] [7] (-3, 4) 10 [-1, 0, 1] ''C0''], None)"
  using decompose_components[of "[5, 6, 7]" "-1" "(-3, 4)" 10 "[-1, 0, 1]"]
  by (simp add: upt_rec)





text \<open>
  Claim C9 (coefficient lookup). For non-empty \<open>x\<close>, the index range \<open>n_x\<close> is not
  empty, and for every \<open>i\<close> in it the offset \<open>i - start_x\<close> is at least 0 and less than
  \<open>len(x)\<close>, so \<^verbatim>\<open>x[i - start_x]\<close> reads sample \<open>i - start_x\<close> and raises nothing.
  Hence neither the decomposition loop nor the loop of shifted responses (for non-empty
  \<open>h\<close>) raises, and each runs once per sample of \<open>x\<close>.
\<close>

theorem coefficient_lookup_in_bounds:
  assumes "x \<noteq> []" and "h \<noteq> []"
  shows "app_n_x x start_x \<noteq> []
       \<and> (\<forall>i \<in> set (app_n_x x start_x).
             0 \<le> i - start_x \<and> i - start_x < len x
             \<and> getitem x (i - start_x) = Inr (x ! nat (i - start_x)))
       \<and> (\<exists>figs. decomposition_loop (app_n_x x start_x) x start_x xl ym tk = (figs, None)
             \<and> length figs = length x)
       \<and> (\<exists>figs. plot_shifted_impulse_responses (app_n_x x start_x) x start_x h
                    (app_n_h0 h start_h) xl ym tk = (figs, None)
             \<and> length figs = length x)"
proof -
  have "start_x \<in> set (app_n_x x start_x)"
    using assms by (simp add: app_n_x_def arange_def)
  then have ne: "app_n_x x start_x \<noteq> []" by auto
  have b: "\<forall>i \<in> set (app_n_x x start_x).
             0 \<le> i - start_x \<and> i - start_x < len x
             \<and> getitem x (i - start_x) = Inr (x ! nat (i - start_x))"
    using app_n_x_in_range[of _ x start_x] by (auto simp: getitem_in_range)
  have d: "\<exists>figs. decomposition_loop (app_n_x x start_x) x start_x xl ym tk = (figs, None)
             \<and> length figs = length x"
    by (simp add: decomposition_loop_eq)
  have s: "\<exists>figs. plot_shifted_impulse_responses (app_n_x x start_x) x start_x h
                    (app_n_h0 h start_h) xl ym tk = (figs, None)
             \<and> length figs = length x"
    by (simp add: shifted_loop_eq)
  from ne b d s show ?thesis by blast
qed

theorem coefficient_lookup_in_bounds_witness:
  "[5, 6, 7] \<noteq> ([] :: real list) \<and> [1, 1] \<noteq> ([] :: real list)
   \<and> app_n_x [5, 6, 7] (-4) = [-4, -3, -2]
   \<and> getitem [5, 6, 7 :: real] (-4 - (-4)) = Inr 5
   \<and> getitem [5, 6, 7 :: real] (-3 - (-4)) = Inr 6
   \<and> getitem [5, 6, 7 :: real] (-2 - (-4)) = Inr 7"
proof -
  have ne: "[5, 6, 7] \<noteq> ([] :: real list)" "[1, 1] \<noteq> ([] :: real list)" by simp_all
  have n: "app_n_x [5, 6, 7] (-4) = [-4, -3, -2]"
    by (simp add: app_n_x_def arange_def upto_rec1)
  from coefficient_lookup_in_bounds[OF ne, of "-4"]
  have "\<forall>i \<in> set (app_n_x [5, 6, 7] (-4)).
          getitem [5, 6, 7 :: real] (i - (-4)) = Inr ([5, 6, 7] ! nat (i - (-4)))"
    by blast
  then show ?thesis unfolding n by simp
qed

text \<open>
  Claim C10 (shifted responses fit the global axis). For non-empty \<open>x\<close> and \<open>h\<close>, the
  loop of shifted responses, run as the script runs it, shows \<open>len(x)\<close> figures; each
  has at least one stem, all its time indices \<open>n_h0 + i\<close> lie in the convolution span
  \<open>start_y .. end_y\<close> and so between the global minimum and maximum, and they are among
  the ticks the figure is given, which are the global ticks.
\<close>

theorem shifted_responses_within_span:
  assumes "x \<noteq> []" and "h \<noteq> []"
  shows "\<exists>figs. plot_shifted_impulse_responses (app_n_x x start_x) x start_x h
                  (app_n_h0 h start_h) (app_global_xlim x start_x h start_h) ym
                  (app_global_ticks x start_x h start_h) = (figs, None)
           \<and> length figs = length x
           \<and> (\<forall>f \<in> set figs.
                 stem_n f \<noteq> []
               \<and> set (stem_n f) \<subseteq> {app_start_y start_x start_h .. app_end_y x start_x h start_h}
               \<and> set (stem_n f) \<subseteq> {app_global_min start_x start_h ..
                                       app_global_max x start_x h start_h}
               \<and> set (stem_n f) \<subseteq> set (ax_xticks f)
               \<and> ax_xticks f = app_global_ticks x start_x h start_h)"
proof -
  let ?xl = "app_global_xlim x start_x h start_h"
  let ?tk = "app_global_ticks x start_x h start_h"
  let ?fig = "\<lambda>k. plot_signal_with_grid (map (\<lambda>n. n + (start_x + int k)) (app_n_h0 h start_h))
                      (map (\<lambda>v. x ! k * v) h) ?xl ym ?tk ''C1''"
  have tk: "set ?tk = {app_global_min start_x start_h .. app_global_max x start_x h start_h}"
    by (simp add: app_global_ticks_def arange_def)
  have span: "{app_start_y start_x start_h .. app_end_y x start_x h start_h}
      \<subseteq> {app_global_min start_x start_h .. app_global_max x start_x h start_h}"
    by (auto simp: app_global_min_def app_global_max_def)
  have one: "stem_n (?fig k) \<noteq> []
      \<and> set (stem_n (?fig k)) \<subseteq> {app_start_y start_x start_h .. app_end_y x start_x h start_h}"
    if "k < length x" for k
  proof -
    have s: "stem_n (?fig k)
        = [start_h + (start_x + int k) .. start_h + (start_x + int k) + len h - 1]"
      by (simp add: plot_signal_with_grid_def app_n_h0_def arange_shift) (simp add: arange_def)
    have "start_h + (start_x + int k) \<in> set (stem_n (?fig k))"
      unfolding s using assms by simp
    then have "stem_n (?fig k) \<noteq> []" by auto
    moreover have "set (stem_n (?fig k))
        \<subseteq> {app_start_y start_x start_h .. app_end_y x start_x h start_h}"
      unfolding s using that by (auto simp: app_start_y_def app_end_y_def)
    ultimately show ?thesis by blast
  qed
  have all: "\<forall>f \<in> set (map ?fig [0..<length x]).
                 stem_n f \<noteq> []
               \<and> set (stem_n f) \<subseteq> {app_start_y start_x start_h .. app_end_y x start_x h start_h}
               \<and> set (stem_n f) \<subseteq> {app_global_min start_x start_h ..
                                       app_global_max x start_x h start_h}
               \<and> set (stem_n f) \<subseteq> set (ax_xticks f)
               \<and> ax_xticks f = app_global_ticks x start_x h start_h"
  proof
    fix f assume "f \<in> set (map ?fig [0..<length x])"
    then obtain k where k: "k < length x" and f: "f = ?fig k" by auto
    have t: "ax_xticks f = ?tk" unfolding f by (simp add: plot_signal_with_grid_def)
    from one[OF k] span tk show "stem_n f \<noteq> []
               \<and> set (stem_n f) \<subseteq> {app_start_y start_x start_h .. app_end_y x start_x h start_h}
               \<and> set (stem_n f) \<subseteq> {app_global_min start_x start_h ..
                                       app_global_max x start_x h start_h}
               \<and> set (stem_n f) \<subseteq> set (ax_xticks f)
               \<and> ax_xticks f = app_global_ticks x start_x h start_h"
      unfolding t unfolding f[symmetric] by blast
  qed
  have loop: "plot_shifted_impulse_responses (app_n_x x start_x) x start_x h
      (app_n_h0 h start_h) ?xl ym ?tk = (map ?fig [0..<length x], None)"
    by (rule shifted_loop_eq)
  have n: "length (map ?fig [0..<length x]) = length x" by simp
  from loop n all show ?thesis by blast
qed

theorem shifted_responses_within_span_witness:
  "[1, 2] \<noteq> ([] :: real list) \<and> [1, 1] \<noteq> ([] :: real list)
   \<and> app_start_y (-3) 1 = -2 \<and> app_end_y [1, 2] (-3) [1, 1] 1 = 0
   \<and> (\<exists>figs. plot_shifted_impulse_responses (app_n_x [1, 2] (-3)) [1, 2] (-3) [1, 1]
                  (app_n_h0 [1, 1] 1) (app_global_xlim [1, 2] (-3) [1, 1] 1) 10
                  (app_global_ticks [1, 2] (-3) [1, 1] 1) = (figs, None)
           \<and> map stem_n figs = [[-2, -1], [-1, 0]]
           \<and> list_all (\<lambda>f. set (stem_n f) \<subseteq> {-2 .. 0}) figs)"
proof -
  have ne: "[1, 2] \<noteq> ([] :: real list)" "[1, 1] \<noteq> ([] :: real list)" by simp_all
  have v: "app_start_y (-3) 1 = -2" "app_end_y [1, 2] (-3) [1, 1] 1 = 0"
    by (simp_all add: app_start_y_def app_end_y_def)
  let ?xl = "app_global_xlim [1, 2] (-3) [1, 1] 1"
  let ?tk = "app_global_ticks [1, 2] (-3) [1, 1] 1"
  from shifted_responses_within_span[OF ne, of "-3" 1 10]
  obtain figs where
    a: "plot_shifted_impulse_responses (app_n_x [1, 2] (-3)) [1, 2] (-3) [1, 1]
                  (app_n_h0 [1, 1] 1) ?xl 10 ?tk = (figs, None)"
    and b: "\<forall>f \<in> set figs.
              set (stem_n f) \<subseteq> {app_start_y (-3) 1 .. app_end_y [1, 2] (-3) [1, 1] 1}"
    by blast
  have "plot_shifted_impulse_responses (app_n_x [1, 2] (-3)) [1, 2] (-3) [1, 1]
                  (app_n_h0 [1, 1] 1) ?xl 10 ?tk
      = ([plot_signal_with_grid [-2, -1] [1, 1] ?xl 10 ?tk ''C1'',
          plot_signal_with_grid [-1, 0] [2, 2] ?xl 10 ?tk ''C1''], None)"
    by (simp add: app_n_x_def app_n_h0_def arange_def upto_rec1 getitem_def)
  with a have c: "map stem_n figs = [[-2, -1], [-1, 0]]"
    by (auto simp: plot_signal_with_grid_def)
  from b have d: "list_all (\<lambda>f. set (stem_n f) \<subseteq> {-2 .. 0}) figs"
    unfolding v by (simp add: list_all_iff)
  from a c d v show ?thesis by simp
qed

subsection \<open>Parsing\<close>












end
